theory Spec2Isabelle
  imports Main "HOL-Library.Char_ord" "HOL-Library.List_Lexorder" "HOL-Library.AList"
begin

section \<open>Message storage (messaging/messageStorage.js)\<close>

subsection \<open>Data\<close>

text \<open>
  A persisted message \<^verbatim>\<open>{id, from, to, text, timestamp, read}\<close>. The id is the template
  \<^verbatim>\<open>`${timestamp}_${suffix}`\<close>; it is kept as the pair of its two parts. Timestamps are
  epoch milliseconds.
\<close>

record message =
  msgId :: "int \<times> string"
  msgFrom :: string
  msgTo :: string
  msgText :: string
  timestamp :: int
  read :: bool

text \<open>A dialog document \<^verbatim>\<open>{participants, messages, createdAt, updatedAt}\<close>.\<close>

record dialog =
  participants :: "string list"
  messages :: "message list"
  createdAt :: int
  updatedAt :: int

text \<open>A contact \<^verbatim>\<open>{address, addedAt, lastMessageAt}\<close>.\<close>

record contact =
  address :: string
  addedAt :: int
  lastMessageAt :: int

text \<open>
  The content of a file of the dialogs directory: text on which \<^verbatim>\<open>JSON.parse\<close> throws, or
  a dialog document.
\<close>

datatype fileContent = Unparsable | Json dialog

datatype error = SyntaxError

text \<open>
  The storage object after \<^verbatim>\<open>init()\<close>, together with the part of the environment its methods
  read. \<open>dialogFiles\<close> is the dialogs directory, keyed by full path; the order of the list
  carries no meaning. \<open>contactsFile\<close> is \<open>None\<close> when \<^verbatim>\<open>contacts.json\<close> is missing or does not
  parse (the code reads both as the empty list). \<open>dateNow k\<close> is the value of the \<open>k\<close>-th call of
  \<^verbatim>\<open>Date.now()\<close> and \<open>mathRandom k\<close> the suffix made from the \<open>k\<close>-th call of
  \<^verbatim>\<open>Math.random()\<close>; both are arbitrary.
\<close>

record storage =
  dialogsPath :: string
  dialogFiles :: "(string \<times> fileContent) list"
  contactsFile :: "contact list option"
  dateNow :: "nat \<Rightarrow> int"
  nowCalls :: nat
  mathRandom :: "nat \<Rightarrow> string"
  randomCalls :: nat

definition now :: "storage \<Rightarrow> int \<times> storage" where
  "now s = (dateNow s (nowCalls s), s\<lparr>nowCalls := Suc (nowCalls s)\<rparr>)"

definition random :: "storage \<Rightarrow> string \<times> storage" where
  "random s = (mathRandom s (randomCalls s), s\<lparr>randomCalls := Suc (randomCalls s)\<rparr>)"

subsection \<open>getDialogPath\<close>

text \<open>\<^verbatim>\<open>[address1, address2].sort()\<close>: the default comparison orders strings by code unit.\<close>

definition sort2 :: "string \<Rightarrow> string \<Rightarrow> string list" where
  "sort2 address1 address2 =
     (if address2 < address1 then [address2, address1] else [address1, address2])"

text \<open>The character class \<^verbatim>\<open>[a-zA-Z0-9_]\<close>.\<close>

definition safeChar :: "char \<Rightarrow> bool" where
  "safeChar c \<longleftrightarrow>
     (CHR ''a'' \<le> c \<and> c \<le> CHR ''z'') \<or> (CHR ''A'' \<le> c \<and> c \<le> CHR ''Z'') \<or>
     (CHR ''0'' \<le> c \<and> c \<le> CHR ''9'') \<or> c = CHR ''_''"

text \<open>\<^verbatim>\<open>.replace(/[^a-zA-Z0-9_]/g, '_')\<close>\<close>

definition sanitize :: "string \<Rightarrow> string" where
  "sanitize str = map (\<lambda>c. if safeChar c then c else CHR ''_'') str"

text \<open>\<^verbatim>\<open>if (dialogId.length > 200) dialogId = dialogId.substring(0, 200)\<close>\<close>

definition limitLength :: "string \<Rightarrow> string" where
  "limitLength dialogId = (if length dialogId > 200 then take 200 dialogId else dialogId)"

text \<open>\<^verbatim>\<open>path.join(this.dialogsPath, `${dialogId}.json`)\<close> for the joined pair \<open>joined\<close>.\<close>

definition dialogFile :: "string \<Rightarrow> string \<Rightarrow> string" where
  "dialogFile dir joined = dir @ ''/'' @ limitLength (sanitize joined) @ ''.json''"

definition getDialogPath :: "string \<Rightarrow> string \<Rightarrow> string \<Rightarrow> string" where
  "getDialogPath dir address1 address2 =
     (let addresses = sort2 address1 address2
      in dialogFile dir (addresses ! 0 @ ''_'' @ addresses ! 1))"

subsection \<open>getDialog, saveDialog\<close>

text \<open>
  \<^verbatim>\<open>saveDialog\<close> computes the path from \<^verbatim>\<open>participants[0]\<close> and \<^verbatim>\<open>participants[1]\<close>. A
  missing element is \<^verbatim>\<open>undefined\<close>, which \<^verbatim>\<open>sort\<close> leaves last and the template prints as
  the word. It stamps \<^verbatim>\<open>updatedAt\<close> on the object it was given, so the stamped dialog is
  returned with the new storage.
\<close>

definition savePath :: "string \<Rightarrow> string list \<Rightarrow> string" where
  "savePath dir ps =
     (case ps of
        [] \<Rightarrow> dialogFile dir ''undefined_undefined''
      | [p0] \<Rightarrow> dialogFile dir (p0 @ ''_undefined'')
      | p0 # p1 # _ \<Rightarrow> getDialogPath dir p0 p1)"

definition saveDialog :: "dialog \<Rightarrow> storage \<Rightarrow> dialog \<times> storage" where
  "saveDialog d s =
     (let dialogPath = savePath (dialogsPath s) (participants d);
          (t, s1) = now s;
          d' = d\<lparr>updatedAt := t\<rparr>
      in (d', s1\<lparr>dialogFiles := AList.update dialogPath (Json d') (dialogFiles s1)\<rparr>))"

definition getDialog :: "string \<Rightarrow> string \<Rightarrow> storage \<Rightarrow> error + dialog \<times> storage" where
  "getDialog address1 address2 s =
     (let dialogPath = getDialogPath (dialogsPath s) address1 address2
      in case map_of (dialogFiles s) dialogPath of
           Some Unparsable \<Rightarrow> Inl SyntaxError
         | Some (Json d) \<Rightarrow> Inr (d, s)
         | None \<Rightarrow>
             (let ps = (if address1 = address2 then [address1, address2]
                        else sort2 address1 address2);
                  (c, s1) = now s;
                  (u, s2) = now s1
              in Inr (saveDialog
                        \<lparr>participants = ps, messages = [], createdAt = c, updatedAt = u\<rparr> s2)))"

subsection \<open>addMessage, updateContacts\<close>

text \<open>\<^verbatim>\<open>contacts.find(c => c.address === addr).lastMessageAt = t\<close>: the first match is touched.\<close>

fun touchFirst :: "string \<Rightarrow> int \<Rightarrow> contact list \<Rightarrow> contact list" where
  "touchFirst addr t [] = []"
| "touchFirst addr t (c # cs) =
     (if address c = addr then c\<lparr>lastMessageAt := t\<rparr> # cs else c # touchFirst addr t cs)"

text \<open>One round of the loop \<^verbatim>\<open>for (const addr of addresses)\<close>.\<close>

definition touchContact :: "string \<Rightarrow> contact list \<times> storage \<Rightarrow> contact list \<times> storage" where
  "touchContact addr st =
     (let (contacts, s) = st
      in if find (\<lambda>c. address c = addr) contacts = None
         then (let (a, s1) = now s; (l, s2) = now s1
               in (contacts @ [\<lparr>address = addr, addedAt = a, lastMessageAt = l\<rparr>], s2))
         else (let (l, s1) = now s in (touchFirst addr l contacts, s1)))"

definition updateContacts :: "string \<Rightarrow> string \<Rightarrow> storage \<Rightarrow> storage" where
  "updateContacts address1 address2 s =
     (let contacts = (case contactsFile s of None \<Rightarrow> [] | Some cs \<Rightarrow> cs);
          (contacts', s') = fold touchContact [address1, address2] (contacts, s)
      in s'\<lparr>contactsFile := Some contacts'\<rparr>)"

text \<open>The timestamp parameter defaults to \<^verbatim>\<open>Date.now()\<close> when it is omitted (\<open>None\<close>).\<close>

definition addMessage ::
  "string \<Rightarrow> string \<Rightarrow> string \<Rightarrow> int option \<Rightarrow> storage \<Rightarrow> error + message \<times> storage" where
  "addMessage from to txt tsOpt s =
     (let (ts, s0) = (case tsOpt of None \<Rightarrow> now s | Some t \<Rightarrow> (t, s))
      in case getDialog from to s0 of
           Inl e \<Rightarrow> Inl e
         | Inr (d, s1) \<Rightarrow>
             (let (r, s2) = random s1;
                  m = \<lparr>msgId = (ts, r), msgFrom = from, msgTo = to, msgText = txt,
                       timestamp = ts, read = False\<rparr>;
                  (d', s3) = saveDialog (d\<lparr>messages := messages d @ [m]\<rparr>) s2
              in Inr (m, updateContacts from to s3)))"

subsection \<open>getDialogs\<close>

text \<open>An element of the result of \<^verbatim>\<open>getDialogs\<close>: the dialog's fields and three more.\<close>

record dialogEntry = dialog +
  otherParticipant :: string
  lastMessage :: "message option"
  unreadCount :: nat

text \<open>\<^verbatim>\<open>[...new Set(xs)]\<close>: the distinct elements in the order of their first occurrence.\<close>

definition uniqueList :: "'a list \<Rightarrow> 'a list" where
  "uniqueList xs = rev (remdups (rev xs))"

definition endsWith :: "string \<Rightarrow> string \<Rightarrow> bool" where
  "endsWith str suffix \<longleftrightarrow>
     length suffix \<le> length str \<and> drop (length str - length suffix) str = suffix"

text \<open>
  The body of the loop over the directory for one file: the entries it pushes (none or one).
  A file that does not parse is skipped by the \<^verbatim>\<open>catch\<close>.
\<close>

definition dialogEntryOf :: "string \<Rightarrow> string \<times> fileContent \<Rightarrow> dialogEntry list" where
  "dialogEntryOf addr entry =
     (let (filePath, content) = entry
      in if \<not> endsWith filePath ''.json'' then []
         else case content of
           Unparsable \<Rightarrow> []
         | Json d \<Rightarrow>
             if addr \<in> set (participants d) then
               (let found = find (\<lambda>p. p \<noteq> [] \<and> p \<noteq> addr) (participants d);
                    other = (if found = None
                             then (let uniqueParticipants = uniqueList (participants d)
                                   in if length uniqueParticipants = 1 \<and>
                                         uniqueParticipants ! 0 = addr
                                      then Some addr else None)
                             else found);
                    lastMsg = (if messages d \<noteq> [] then Some (last (messages d)) else None);
                    truthy = (case other of None \<Rightarrow> False | Some p \<Rightarrow> p \<noteq> [])
                in if truthy \<or> (participants d \<noteq> [] \<and> participants d ! 0 = addr)
                   then [dialog.extend d
                           \<lparr>otherParticipant = (if truthy then the other else addr),
                            lastMessage = lastMsg,
                            unreadCount =
                              length (filter (\<lambda>m. msgTo m = addr \<and> \<not> read m) (messages d))\<rparr>]
                   else [])
             else [])"

text \<open>\<^verbatim>\<open>a.lastMessage ? a.lastMessage.timestamp : a.updatedAt\<close>\<close>

definition sortTime :: "dialogEntry \<Rightarrow> int" where
  "sortTime a = (case lastMessage a of Some m \<Rightarrow> timestamp m | None \<Rightarrow> updatedAt a)"

text \<open>
  \<^verbatim>\<open>readdir(this.dialogsPath)\<close> lists the directory sorted by name; all paths share the
  directory prefix, so this is the order of the paths.
\<close>

definition readdir :: "storage \<Rightarrow> (string \<times> fileContent) list" where
  "readdir s = sort_key fst (dialogFiles s)"

text \<open>
  \<^verbatim>\<open>dialogs.sort((a, b) => bTime - aTime)\<close>: \<^verbatim>\<open>Array.prototype.sort\<close> is stable, so the result
  is the stable sort by descending time.
\<close>

definition getDialogs :: "string \<Rightarrow> storage \<Rightarrow> dialogEntry list" where
  "getDialogs addr s =
     sort_key (\<lambda>a. - sortTime a) (concat (map (dialogEntryOf addr) (readdir s)))"

subsection \<open>getMessages, markAsRead\<close>

text \<open>
  \<^verbatim>\<open>xs.slice(start)\<close> for an integer \<open>start\<close>: a negative start counts from the end, and both
  are clamped to the array.
\<close>

definition slice :: "int \<Rightarrow> 'a list \<Rightarrow> 'a list" where
  "slice start xs =
     (let len = int (length xs);
          k = (if start < 0 then max (len + start) 0 else min start len)
      in drop (nat k) xs)"

text \<open>
  The comparison \<^verbatim>\<open>(a.timestamp || 0) - (b.timestamp || 0)\<close> orders by timestamp (a
  timestamp of 0 reads as 0), and the sort is stable. The limit defaults to 50 when it is
  omitted (\<open>None\<close>).
\<close>

definition getMessages ::
  "string \<Rightarrow> string \<Rightarrow> int option \<Rightarrow> storage \<Rightarrow> error + message list \<times> storage" where
  "getMessages address1 address2 limitOpt s =
     (let limit = (case limitOpt of None \<Rightarrow> 50 | Some l \<Rightarrow> l)
      in case getDialog address1 address2 s of
           Inl e \<Rightarrow> Inl e
         | Inr (d, s1) \<Rightarrow>
             (let sortedMessages = sort_key timestamp (messages d)
              in Inr (slice (- limit) sortedMessages, s1)))"

definition markAsRead :: "string \<Rightarrow> string \<Rightarrow> string \<Rightarrow> storage \<Rightarrow> error + storage" where
  "markAsRead address1 address2 currentAddress s =
     (case getDialog address1 address2 s of
        Inl e \<Rightarrow> Inl e
      | Inr (d, s1) \<Rightarrow>
          (let updated = (\<exists>m \<in> set (messages d). msgTo m = currentAddress \<and> \<not> read m);
               ms = map (\<lambda>m. if msgTo m = currentAddress \<and> \<not> read m
                              then m\<lparr>read := True\<rparr> else m) (messages d)
           in if updated then Inr (snd (saveDialog (d\<lparr>messages := ms\<rparr>) s1)) else Inr s1))"

subsection \<open>Identities made of letters and digits\<close>

text \<open>The strings over \<^verbatim>\<open>[a-zA-Z0-9]\<close>: no character is replaced, none is the separator.\<close>

definition alnum :: "string \<Rightarrow> bool" where
  "alnum str = list_all (\<lambda>c. safeChar c \<and> c \<noteq> CHR ''_'') str"

subsection \<open>getContacts\<close>

text \<open>A missing or unparsable \<^verbatim>\<open>contacts.json\<close> reads as the empty list.\<close>

definition getContacts :: "storage \<Rightarrow> contact list" where
  "getContacts s = (case contactsFile s of None \<Rightarrow> [] | Some cs \<Rightarrow> cs)"

subsection \<open>Example storages\<close>

text \<open>
  The storage right after \<^verbatim>\<open>init()\<close> (an empty dialogs directory and \<^verbatim>\<open>contacts.json\<close>
  holding \<^verbatim>\<open>[]\<close>), with a clock that starts at 5000 and advances by one per reading.
\<close>

definition fresh :: storage where
  "fresh = \<lparr>dialogsPath = ''dialogs'', dialogFiles = [], contactsFile = Some [],
            dateNow = (\<lambda>k. 5000 + int k), nowCalls = 0,
            mathRandom = (\<lambda>k. ''k3x9q2m1z''), randomCalls = 0\<rparr>"

text \<open>
  The storage after \<^verbatim>\<open>addMessage('A', 'B', 'sent', 2000)\<close> and then
  \<^verbatim>\<open>addMessage('B', 'A', 'received', 1000)\<close> on \<open>fresh\<close>: the message appended last carries
  the smaller timestamp.
\<close>

definition outOfOrder :: storage where
  "outOfOrder =
     fresh\<lparr>dialogFiles :=
             [(''dialogs/A_B.json'',
               Json \<lparr>participants = [''A'', ''B''],
                     messages =
                       [\<lparr>msgId = (2000, ''k3x9q2m1z''), msgFrom = ''A'', msgTo = ''B'',
                         msgText = ''sent'', timestamp = 2000, read = False\<rparr>,
                        \<lparr>msgId = (1000, ''k3x9q2m1z''), msgFrom = ''B'', msgTo = ''A'',
                         msgText = ''received'', timestamp = 1000, read = False\<rparr>],
                     createdAt = 5000, updatedAt = 5008\<rparr>)],
           contactsFile :=
             Some [\<lparr>address = ''A'', addedAt = 5004, lastMessageAt = 5010\<rparr>,
                   \<lparr>address = ''B'', addedAt = 5006, lastMessageAt = 5009\<rparr>],
           nowCalls := 11, randomCalls := 2\<rparr>"

text \<open>
  The storage after \<^verbatim>\<open>addMessage('a', 'a_a_a', 'hi', 1000)\<close> on \<open>fresh\<close>: the file of that
  dialog has the name that the pair \<^verbatim>\<open>('a_a', 'a_a')\<close> gets too.
\<close>

definition keyTaken :: storage where
  "keyTaken =
     fresh\<lparr>dialogFiles :=
             [(''dialogs/a_a_a_a.json'',
               Json \<lparr>participants = [''a'', ''a_a_a''],
                     messages =
                       [\<lparr>msgId = (1000, ''k3x9q2m1z''), msgFrom = ''a'', msgTo = ''a_a_a'',
                         msgText = ''hi'', timestamp = 1000, read = False\<rparr>],
                     createdAt = 5000, updatedAt = 5003\<rparr>)],
           contactsFile :=
             Some [\<lparr>address = ''a'', addedAt = 5004, lastMessageAt = 5005\<rparr>,
                   \<lparr>address = ''a_a_a'', addedAt = 5006, lastMessageAt = 5007\<rparr>],
           nowCalls := 8, randomCalls := 1\<rparr>"

section \<open>Server client (api/serverClient.js)\<close>

subsection \<open>Values on the wire\<close>

text \<open>
  What \<^verbatim>\<open>JSON.parse\<close> returns; an object is the list of its properties, each key once. A
  property that is missing reads as \<^verbatim>\<open>undefined\<close>, which is \<open>None\<close> here.
\<close>

datatype json =
  JNull | JBool bool | JNum int | JStr string | JArr "json list" | JObj "(string \<times> json) list"

fun truthy :: "json \<Rightarrow> bool" where
  "truthy JNull = False"
| "truthy (JBool b) = b"
| "truthy (JNum n) = (n \<noteq> 0)"
| "truthy (JStr str) = (str \<noteq> [])"
| "truthy (JArr xs) = True"
| "truthy (JObj kvs) = True"

definition truthyOpt :: "json option \<Rightarrow> bool" where
  "truthyOpt v = (case v of None \<Rightarrow> False | Some j \<Rightarrow> truthy j)"

text \<open>
  \<^verbatim>\<open>value.key\<close> for the keys the client reads (\<^verbatim>\<open>type\<close>, \<^verbatim>\<open>data\<close>, \<^verbatim>\<open>address\<close>, \<^verbatim>\<open>to\<close>,
  \<^verbatim>\<open>error\<close>): only an object has them. Reading a property of \<^verbatim>\<open>null\<close> throws, which the
  callers below handle before they read.
\<close>

fun getProp :: "json \<Rightarrow> string \<Rightarrow> json option" where
  "getProp (JObj kvs) key = map_of kvs key"
| "getProp _ key = None"

subsection \<open>The client object\<close>

text \<open>
  The callbacks that are subscribed in this repository: the global handler of
  \<^verbatim>\<open>index.js\<close> for \<^verbatim>\<open>'message'\<close>, the \<^verbatim>\<open>handler\<close> of \<^verbatim>\<open>registerAddress\<close> and the
  \<^verbatim>\<open>successHandler\<close> and \<^verbatim>\<open>errorHandler\<close> of \<^verbatim>\<open>sendMessage\<close>. The last three are closures made
  per call; the number is the call (the request) that made them, the string the \<^verbatim>\<open>address\<close>
  or \<^verbatim>\<open>to\<close> they captured.
\<close>

datatype handler =
    StoreMessage
  | RegisteredHandler nat string
  | SuccessHandler nat string
  | ErrorHandler nat string

text \<open>How the promise of a request ended, and why it was rejected.\<close>

datatype rejection =
    RegistrationTimeout
  | SendTimeout
  | ServerError json
  | Thrown

datatype outcome = Resolved "json option" | Rejected rejection

text \<open>The deadline timer of a request: \<^verbatim>\<open>setTimeout(..., 10000)\<close> or \<^verbatim>\<open>setTimeout(..., 15000)\<close>.\<close>

datatype deadline = RegisterDeadline string | SendDeadline string

datatype readyState = CONNECTING | OPEN | CLOSING | CLOSED

text \<open>
  The fields of \<^verbatim>\<open>ServerClient\<close> and the part of the environment its methods act on.
  \<open>sockets\<close> holds the ready state of every \<^verbatim>\<open>WebSocket\<close> object made so far, in the order
  of creation, and \<open>wsConnection\<close> is the index of the current one. \<open>wsListeners\<close> is the
  \<^verbatim>\<open>Map\<close> from event type to the array of callbacks. \<open>timers\<close> are the armed request
  deadlines, \<open>settled\<close> the promises of the requests that were resolved or rejected,
  \<open>calls\<close> the callbacks invoked so far with their argument, \<open>sent\<close> the frames given to
  \<^verbatim>\<open>send\<close>. \<open>connectTimers\<close> are the armed 10 second connection timers, \<open>connected\<close> the
  settled promises of \<^verbatim>\<open>connectWebSocket\<close> (by socket; true when resolved), \<open>reconnects\<close>
  the number of pending 5 second reconnection timers.
\<close>

record client =
  wsConnection :: "nat option"
  sockets :: "readyState list"
  wsListeners :: "string \<rightharpoonup> handler list"
  pingInterval :: bool
  connecting :: bool
  isTTY :: bool
  timers :: "nat \<rightharpoonup> deadline"
  settled :: "nat \<rightharpoonup> outcome"
  nextRequest :: nat
  calls :: "(handler \<times> json) list"
  sent :: "json list"
  connectTimers :: "nat set"
  connected :: "nat \<rightharpoonup> bool"
  reconnects :: nat

subsection \<open>on, off\<close>

definition bucket :: "string \<Rightarrow> client \<Rightarrow> handler list" where
  "bucket eventType c = (case wsListeners c eventType of None \<Rightarrow> [] | Some ls \<Rightarrow> ls)"

definition on :: "string \<Rightarrow> handler \<Rightarrow> client \<Rightarrow> client" where
  "on eventType callback c =
     c\<lparr>wsListeners := (wsListeners c)(eventType \<mapsto> bucket eventType c @ [callback])\<rparr>"

text \<open>
  \<^verbatim>\<open>indexOf\<close> and \<^verbatim>\<open>splice(index, 1)\<close> remove the first occurrence; an array left empty is
  deleted from the map.
\<close>

definition off :: "string \<Rightarrow> handler \<Rightarrow> client \<Rightarrow> client" where
  "off eventType callback c =
     (case wsListeners c eventType of
        None \<Rightarrow> c
      | Some listeners \<Rightarrow>
          (let listeners' = remove1 callback listeners
           in if listeners' = []
              then c\<lparr>wsListeners := (wsListeners c)(eventType := None)\<rparr>
              else c\<lparr>wsListeners := (wsListeners c)(eventType \<mapsto> listeners')\<rparr>))"

subsection \<open>The callbacks\<close>

text \<open>A promise is settled by the first \<^verbatim>\<open>resolve\<close> or \<^verbatim>\<open>reject\<close>; later ones do nothing.\<close>

definition settle :: "nat \<Rightarrow> outcome \<Rightarrow> client \<Rightarrow> client" where
  "settle r out c =
     (case settled c r of None \<Rightarrow> c\<lparr>settled := (settled c)(r \<mapsto> out)\<rparr> | Some _ \<Rightarrow> c)"

definition clearTimeout :: "nat \<Rightarrow> client \<Rightarrow> client" where
  "clearTimeout r c = c\<lparr>timers := (timers c)(r := None)\<rparr>"

text \<open>
  One call \<^verbatim>\<open>listener(data)\<close>. The handler of \<^verbatim>\<open>index.js\<close> is an async function whose body is
  inside \<^verbatim>\<open>try\<close>; it does not touch the client. None of the four throws.
\<close>

definition invoke :: "handler \<Rightarrow> json \<Rightarrow> client \<Rightarrow> client" where
  "invoke h data c0 =
     (let c = c0\<lparr>calls := calls c0 @ [(h, data)]\<rparr>
      in case h of
           StoreMessage \<Rightarrow> c
         | RegisteredHandler r addr \<Rightarrow>
             if truthy data \<and> getProp data ''address'' = Some (JStr addr)
             then settle r (Resolved None) (off ''registered'' h (clearTimeout r c))
             else c
         | SuccessHandler r to \<Rightarrow>
             if truthy data \<and> getProp data ''to'' = Some (JStr to)
             then settle r (Resolved (Some data))
                    (off ''messageError'' (ErrorHandler r to)
                      (off ''messageSent'' h (clearTimeout r c)))
             else c
         | ErrorHandler r to \<Rightarrow>
             settle r
               (Rejected (ServerError
                  (if truthy data \<and> truthyOpt (getProp data ''error'')
                   then the (getProp data ''error'') else JStr ''Failed to send message'')))
               (off ''messageError'' h
                 (off ''messageSent'' (SuccessHandler r to) (clearTimeout r c))))"

subsection \<open>handleWebSocketMessage\<close>

text \<open>
  \<^verbatim>\<open>listeners.forEach(listener => listener(data))\<close> on the array of \<open>eventType\<close>. The length
  is read once, at the start; at each index the element is read from the array as it then
  is, and an index past its end is skipped. A callback changes the array it is called from
  only through \<^verbatim>\<open>off\<close>, which splices that same array (and drops it from the map once it is
  empty), so the array being walked is the bucket of \<open>eventType\<close> at every step.
\<close>

fun forEachFrom :: "nat \<Rightarrow> nat \<Rightarrow> string \<Rightarrow> json \<Rightarrow> client \<Rightarrow> client" where
  "forEachFrom 0 k eventType data c = c"
| "forEachFrom (Suc n) k eventType data c =
     (let listeners = bucket eventType c
      in forEachFrom n (Suc k) eventType data
           (if k < length listeners then invoke (listeners ! k) data c else c))"

definition forEach :: "string \<Rightarrow> json \<Rightarrow> client \<Rightarrow> client" where
  "forEach eventType data c = forEachFrom (length (bucket eventType c)) 0 eventType data c"

datatype jsError = TypeError

text \<open>
  The five \<^verbatim>\<open>if\<close> blocks of \<^verbatim>\<open>handleWebSocketMessage\<close>, in the order of the source. The
  second parameter \<^verbatim>\<open>onMessageReceived\<close> is left out: the only call passes the message
  alone. The first block reads \<^verbatim>\<open>this.wsListeners.get('message') || []\<close>, which is the
  bucket; the last one is guarded by \<^verbatim>\<open>message.type && this.wsListeners.has(message.type)\<close>,
  and the keys of the map are strings.
\<close>

definition handleIncoming :: "json \<Rightarrow> client \<Rightarrow> client" where
  "handleIncoming message c =
     (if getProp message ''type'' = Some (JStr ''message'')
      then forEach ''message''
             (if truthyOpt (getProp message ''data'') then the (getProp message ''data'')
              else JObj []) c
      else c)"

definition handleRegistered :: "json \<Rightarrow> client \<Rightarrow> client" where
  "handleRegistered message c =
     (if getProp message ''type'' = Some (JStr ''registered'') \<and>
         truthyOpt (getProp message ''data'')
      then forEach ''registered'' (the (getProp message ''data'')) c else c)"

definition handleMessageSent :: "json \<Rightarrow> client \<Rightarrow> client" where
  "handleMessageSent message c =
     (if getProp message ''type'' = Some (JStr ''messageSent'') \<and>
         truthyOpt (getProp message ''data'')
      then forEach ''messageSent'' (the (getProp message ''data'')) c else c)"

definition handleMessageError :: "json \<Rightarrow> client \<Rightarrow> client" where
  "handleMessageError message c =
     (if getProp message ''type'' = Some (JStr ''messageError'') \<and>
         truthyOpt (getProp message ''data'')
      then forEach ''messageError'' (the (getProp message ''data'')) c else c)"

definition handleOther :: "json \<Rightarrow> client \<Rightarrow> client" where
  "handleOther message c =
     (case getProp message ''type'' of
        Some (JStr t) \<Rightarrow>
          if t \<noteq> [] \<and> wsListeners c t \<noteq> None
          then forEach t (if truthyOpt (getProp message ''data'')
                          then the (getProp message ''data'') else message) c
          else c
      | _ \<Rightarrow> c)"

text \<open>\<^verbatim>\<open>message.type\<close> throws when the message is \<^verbatim>\<open>null\<close>.\<close>

definition handleWebSocketMessage :: "json \<Rightarrow> client \<Rightarrow> jsError + client" where
  "handleWebSocketMessage message c =
     (if message = JNull then Inl TypeError
      else Inr (handleOther message
                  (handleMessageError message
                    (handleMessageSent message
                      (handleRegistered message
                        (handleIncoming message c))))))"

text \<open>
  The \<^verbatim>\<open>'message'\<close> listener of the socket: a frame that does not parse (\<open>None\<close>) or on which
  the handler throws is logged and dropped.
\<close>

definition onSocketMessage :: "json option \<Rightarrow> client \<Rightarrow> client" where
  "onSocketMessage frame c =
     (case frame of
        None \<Rightarrow> c
      | Some message \<Rightarrow>
          (case handleWebSocketMessage message c of Inl e \<Rightarrow> c | Inr c' \<Rightarrow> c'))"

subsection \<open>registerAddress, sendMessage\<close>

text \<open>
  The promise executors of \<^verbatim>\<open>registerAddress\<close> and \<^verbatim>\<open>sendMessage\<close>, which run once
  \<^verbatim>\<open>ensureConnected\<close> has returned. \<^verbatim>\<open>this.wsConnection.send\<close> throws when there is no
  connection; whether the library's \<^verbatim>\<open>send\<close> throws otherwise is the parameter
  \<open>sendThrows\<close>. An exception in the executor rejects the promise; the timer and the
  subscriptions made before it stay. The result is the number of the request.
\<close>

definition wsSend :: "json \<Rightarrow> bool \<Rightarrow> nat \<Rightarrow> client \<Rightarrow> client" where
  "wsSend frame sendThrows r c =
     (if wsConnection c = None \<or> sendThrows then settle r (Rejected Thrown) c
      else c\<lparr>sent := sent c @ [frame]\<rparr>)"

definition registerAddress :: "string \<Rightarrow> bool \<Rightarrow> client \<Rightarrow> nat \<times> client" where
  "registerAddress addr sendThrows c =
     (let r = nextRequest c;
          c1 = c\<lparr>nextRequest := Suc r, timers := (timers c)(r \<mapsto> RegisterDeadline addr)\<rparr>;
          c2 = on ''registered'' (RegisteredHandler r addr) c1
      in (r, wsSend (JObj [(''type'', JStr ''register''),
                           (''data'', JObj [(''address'', JStr addr)])]) sendThrows r c2))"

definition sendMessage :: "string \<Rightarrow> string \<Rightarrow> string \<Rightarrow> bool \<Rightarrow> client \<Rightarrow> nat \<times> client" where
  "sendMessage from to txt sendThrows c =
     (let r = nextRequest c;
          c1 = c\<lparr>nextRequest := Suc r, timers := (timers c)(r \<mapsto> SendDeadline to)\<rparr>;
          c2 = on ''messageSent'' (SuccessHandler r to) c1;
          c3 = on ''messageError'' (ErrorHandler r to) c2
      in (r, wsSend (JObj [(''type'', JStr ''message''),
                           (''data'', JObj [(''from'', JStr from), (''to'', JStr to),
                                            (''text'', JStr txt)])]) sendThrows r c3))"

text \<open>The callback of the deadline timer of request \<open>r\<close>; a cleared timer does not fire.\<close>

definition deadlineFires :: "nat \<Rightarrow> client \<Rightarrow> client" where
  "deadlineFires r c =
     (case timers c r of
        None \<Rightarrow> c
      | Some (RegisterDeadline addr) \<Rightarrow>
          settle r (Rejected RegistrationTimeout)
            (off ''registered'' (RegisteredHandler r addr) (clearTimeout r c))
      | Some (SendDeadline to) \<Rightarrow>
          settle r (Rejected SendTimeout)
            (off ''messageError'' (ErrorHandler r to)
              (off ''messageSent'' (SuccessHandler r to) (clearTimeout r c))))"

subsection \<open>connectWebSocket and the events of a socket\<close>

definition readyStateOf :: "client \<Rightarrow> nat \<Rightarrow> readyState" where
  "readyStateOf c k = (if k < length (sockets c) then sockets c ! k else CLOSED)"

text \<open>\<^verbatim>\<open>this.wsConnection && this.wsConnection.readyState === WebSocket.OPEN\<close>\<close>

definition isOpen :: "client \<Rightarrow> bool" where
  "isOpen c = (case wsConnection c of None \<Rightarrow> False | Some k \<Rightarrow> readyStateOf c k = OPEN)"

text \<open>
  \<^verbatim>\<open>socket.close()\<close>: a socket that is not closed yet starts closing; its \<^verbatim>\<open>'close'\<close> event
  comes later.
\<close>

definition closeSocket :: "nat \<Rightarrow> client \<Rightarrow> client" where
  "closeSocket k c =
     c\<lparr>sockets := (sockets c)[k := (if readyStateOf c k = CLOSED then CLOSED else CLOSING)]\<rparr>"

definition settleConnect :: "nat \<Rightarrow> bool \<Rightarrow> client \<Rightarrow> client" where
  "settleConnect k ok c =
     (case connected c k of None \<Rightarrow> c\<lparr>connected := (connected c)(k \<mapsto> ok)\<rparr> | Some _ \<Rightarrow> c)"

text \<open>
  The promise executor of \<^verbatim>\<open>connectWebSocket\<close>: an existing connection is closed and dropped,
  a new \<^verbatim>\<open>WebSocket\<close> is made (one more physical connection attempt) and its 10 second timer
  is armed. The result is the number of the new socket, which also names the promise; a new
  promise is pending.
\<close>

definition connectWebSocket :: "client \<Rightarrow> nat \<times> client" where
  "connectWebSocket c =
     (let c1 = (case wsConnection c of
                  None \<Rightarrow> c
                | Some j \<Rightarrow> (closeSocket j c)\<lparr>wsConnection := None\<rparr>);
          k = length (sockets c1)
      in (k, c1\<lparr>sockets := sockets c1 @ [CONNECTING], wsConnection := Some k,
                connectTimers := insert k (connectTimers c1),
                connected := (connected c1)(k := None)\<rparr>))"

text \<open>
  The listeners that the call for socket \<open>k\<close> put on it. The library has set the socket's
  ready state to open, or closed, when it emits \<^verbatim>\<open>'open'\<close>, or \<^verbatim>\<open>'close'\<close>. The listeners
  test \<^verbatim>\<open>this.wsConnection\<close>, the current socket, not the one they are on. \<open>t\<close> is the
  \<^verbatim>\<open>Date.now()\<close> of the ping.
\<close>

definition wsOpen :: "nat \<Rightarrow> int \<Rightarrow> client \<Rightarrow> client" where
  "wsOpen k t c =
     (let c1 = c\<lparr>sockets := (sockets c)[k := OPEN], connectTimers := connectTimers c - {k},
                 connecting := False\<rparr>;
          c2 = (if isOpen c1
                then c1\<lparr>sent := sent c1 @ [JObj [(''type'', JStr ''ping''), (''timestamp'', JNum t)]],
                        pingInterval := True\<rparr>
                else c1)
      in settleConnect k True c2)"

definition wsError :: "nat \<Rightarrow> client \<Rightarrow> client" where
  "wsError k c =
     (let c1 = c\<lparr>connectTimers := connectTimers c - {k}, connecting := False\<rparr>
      in if wsConnection c1 \<noteq> None \<and> \<not> isOpen c1 then settleConnect k False c1 else c1)"

definition wsClose :: "nat \<Rightarrow> client \<Rightarrow> client" where
  "wsClose k c =
     (let c1 = c\<lparr>sockets := (sockets c)[k := CLOSED], connectTimers := connectTimers c - {k},
                 connecting := False, pingInterval := False, wsConnection := None\<rparr>
      in if isTTY c1 \<and> \<not> connecting c1 then c1\<lparr>reconnects := Suc (reconnects c1)\<rparr> else c1)"

text \<open>The callback of the 30 second ping interval; a cleared interval does not fire.\<close>

definition pingTick :: "int \<Rightarrow> client \<Rightarrow> client" where
  "pingTick t c =
     (if pingInterval c \<and> isOpen c
      then c\<lparr>sent := sent c @ [JObj [(''type'', JStr ''ping''), (''timestamp'', JNum t)]]\<rparr>
      else c)"

text \<open>The callback of the 10 second timer of socket \<open>k\<close>; a cleared timer does not fire.\<close>

definition connectTimeout :: "nat \<Rightarrow> client \<Rightarrow> client" where
  "connectTimeout k c =
     (if k \<notin> connectTimers c then c
      else
        (let c1 = c\<lparr>connectTimers := connectTimers c - {k}\<rparr>
         in case wsConnection c1 of
              None \<Rightarrow> c1
            | Some j \<Rightarrow>
                if readyStateOf c1 j \<noteq> OPEN
                then settleConnect k False
                       ((closeSocket j (c1\<lparr>connecting := False\<rparr>))\<lparr>wsConnection := None\<rparr>)
                else c1))"

text \<open>The callback of a 5 second reconnection timer; a failure of the new attempt is ignored.\<close>

definition reconnectTimer :: "client \<Rightarrow> client" where
  "reconnectTimer c =
     (if reconnects c = 0 then c
      else
        (let c1 = c\<lparr>reconnects := reconnects c - 1\<rparr>
         in if (case wsConnection c1 of None \<Rightarrow> True | Some j \<Rightarrow> readyStateOf c1 j = CLOSED)
            then snd (connectWebSocket c1) else c1))"

subsection \<open>ensureConnected\<close>

text \<open>
  \<^verbatim>\<open>ensureConnected\<close> is an async function; between two of its awaits other code runs. Where
  a call stands: waiting for the 500 ms timer of round \<open>i\<close> of the loop, waiting for the
  promise of \<^verbatim>\<open>connectWebSocket\<close> for socket \<open>k\<close>, returned, or thrown.
\<close>

datatype waiting = Polling nat | AwaitConnect nat | Done | Throws

text \<open>\<^verbatim>\<open>if (!this.connecting) { this.connecting = true; await this.connectWebSocket() ... }\<close>\<close>

definition tryConnect :: "client \<Rightarrow> waiting \<times> client" where
  "tryConnect c =
     (if \<not> connecting c
      then (let (k, c') = connectWebSocket (c\<lparr>connecting := True\<rparr>) in (AwaitConnect k, c'))
      else (Done, c))"

text \<open>From the call to the first await.\<close>

definition ensureConnected :: "client \<Rightarrow> waiting \<times> client" where
  "ensureConnected c =
     (if isOpen c then (Done, c)
      else if connecting c then (Polling 0, c)
      else tryConnect c)"

text \<open>After the loop: \<^verbatim>\<open>if (!this.wsConnection || ... !== OPEN) this.connecting = false\<close>.\<close>

definition afterWait :: "client \<Rightarrow> waiting \<times> client" where
  "afterWait c = tryConnect (if \<not> isOpen c then c\<lparr>connecting := False\<rparr> else c)"

text \<open>From the timer of round \<open>i\<close> to the next await.\<close>

definition ensureConnected_poll :: "nat \<Rightarrow> client \<Rightarrow> waiting \<times> client" where
  "ensureConnected_poll i c =
     (if isOpen c then (Done, c)
      else if \<not> connecting c then afterWait c
      else if Suc i < 20 then (Polling (Suc i), c)
      else afterWait c)"

text \<open>From the settling of the promise for socket \<open>k\<close> to the end.\<close>

definition ensureConnected_resume :: "nat \<Rightarrow> client \<Rightarrow> waiting \<times> client" where
  "ensureConnected_resume k c =
     (case connected c k of
        None \<Rightarrow> (AwaitConnect k, c)
      | Some True \<Rightarrow> (Done, c)
      | Some False \<Rightarrow> (Throws, c\<lparr>connecting := False\<rparr>))"

text \<open>\<^verbatim>\<open>closeWebSocket\<close>\<close>

definition closeWebSocket :: "client \<Rightarrow> client" where
  "closeWebSocket c =
     (let c1 = c\<lparr>pingInterval := False\<rparr>
      in case wsConnection c1 of
           None \<Rightarrow> c1
         | Some j \<Rightarrow> (closeSocket j c1)\<lparr>wsConnection := None\<rparr>)"

subsection \<open>Runs of the client\<close>

text \<open>
  What can happen to a client between two of its steps: a frame arrives, a timer fires, a
  socket emits an event, or one of the client's methods is called or resumes. A run is a
  list of such events, in any order.
\<close>

datatype event =
    Frame "json option"
  | Deadline nat
  | CallRegister string bool
  | CallSend string string string bool
  | SocketOpen nat int
  | SocketError nat
  | SocketClose nat
  | ConnectTimeout nat
  | ReconnectTimer
  | PingTimer int
  | CallConnect
  | CallEnsure
  | EnsurePoll nat
  | EnsureResume nat
  | CallClose

fun step :: "event \<Rightarrow> client \<Rightarrow> client" where
  "step (Frame frame) c = onSocketMessage frame c"
| "step (Deadline r) c = deadlineFires r c"
| "step (CallRegister addr sendThrows) c = snd (registerAddress addr sendThrows c)"
| "step (CallSend from to txt sendThrows) c = snd (sendMessage from to txt sendThrows c)"
| "step (SocketOpen k t) c = wsOpen k t c"
| "step (SocketError k) c = wsError k c"
| "step (SocketClose k) c = wsClose k c"
| "step (ConnectTimeout k) c = connectTimeout k c"
| "step ReconnectTimer c = reconnectTimer c"
| "step (PingTimer t) c = pingTick t c"
| "step CallConnect c = snd (connectWebSocket c)"
| "step CallEnsure c = snd (ensureConnected c)"
| "step (EnsurePoll i) c = snd (ensureConnected_poll i c)"
| "step (EnsureResume k) c = snd (ensureConnected_resume k c)"
| "step CallClose c = closeWebSocket c"

definition run :: "event list \<Rightarrow> client \<Rightarrow> client" where
  "run evs c = fold step evs c"

text \<open>
  The client as \<^verbatim>\<open>index.js\<close> sets it up: the constructor's fields, and the global handler
  subscribed to \<^verbatim>\<open>'message'\<close>.
\<close>

definition startClient :: client where
  "startClient =
     \<lparr>wsConnection = None, sockets = [], wsListeners = [''message'' \<mapsto> [StoreMessage]],
      pingInterval = False, connecting = False, isTTY = True, timers = Map.empty,
      settled = Map.empty, nextRequest = 0, calls = [], sent = [],
      connectTimers = {}, connected = Map.empty, reconnects = 0\<rparr>"

subsection \<open>Requests and their callbacks\<close>



subsection \<open>What holds between two events\<close>





text \<open>The fields that the requests and the subscriptions live in.\<close>

definition correlator ::
  "client \<Rightarrow> (string \<rightharpoonup> handler list) \<times> (nat \<rightharpoonup> deadline) \<times> (nat \<rightharpoonup> outcome) \<times> nat \<times>
            (handler \<times> json) list" where
  "correlator c = (wsListeners c, timers c, settled c, nextRequest c, calls c)"




subsection \<open>Example clients and frames\<close>

text \<open>
  The client of \<^verbatim>\<open>index.js\<close> once its socket is open, and then with one
  \<^verbatim>\<open>registerAddress('A')\<close> pending; the frame that answers it; an inbound chat message.
\<close>

definition openClient :: client where
  "openClient = run [CallConnect, SocketOpen 0 5000] startClient"



definition chatData :: json where
  "chatData = JObj [(''from'', JStr ''B''), (''to'', JStr ''A''), (''text'', JStr ''hi''),
                    (''timestamp'', JNum 1700000000)]"

definition chatFrame :: json where
  "chatFrame = JObj [(''type'', JStr ''message''), (''data'', chatData)]"

section \<open>Properties of the message storage\<close>

lemma sort2_commute: "sort2 x y = sort2 y x"
  by (auto simp: sort2_def)

lemma getDialogPath_swap: "getDialogPath dir a b = getDialogPath dir b a"
  unfolding getDialogPath_def by (simp only: sort2_commute [of a b])

text \<open>
  C4. For all identities \<open>x\<close> and \<open>y\<close>, \<^verbatim>\<open>getDialogPath(x, y)\<close> equals \<^verbatim>\<open>getDialogPath(y, x)\<close>:
  the order of the two arguments never affects the computed storage key.
\<close>

theorem getDialogPath_commute: "getDialogPath dir x y = getDialogPath dir y x"
  by (simp add: getDialogPath_def sort2_commute)

subsection \<open>The storage key on distinct pairs\<close>

lemma sanitize_safe: "list_all safeChar str \<Longrightarrow> sanitize str = str"
  by (induction str) (auto simp: sanitize_def)

lemma limitLength_short: "length str \<le> 200 \<Longrightarrow> limitLength str = str"
  by (simp add: limitLength_def)

lemma sort2_cases: "sort2 a b = [a, b] \<or> sort2 a b = [b, a]"
  by (simp add: sort2_def)

lemma joined_id:
  assumes "alnum p" "alnum q" "length p + length q < 200"
  shows "limitLength (sanitize (p @ ''_'' @ q)) = p @ ''_'' @ q"
proof -
  have "list_all safeChar (p @ ''_'' @ q)"
    using assms(1,2) by (auto simp: alnum_def list_all_iff safeChar_def)
  then have "sanitize (p @ ''_'' @ q) = p @ ''_'' @ q" by (rule sanitize_safe)
  moreover have "length (p @ ''_'' @ q) \<le> 200" using assms(3) by simp
  ultimately show ?thesis by (simp add: limitLength_short)
qed

lemma split_at_separator:
  "x \<notin> set p \<Longrightarrow> x \<notin> set p' \<Longrightarrow> p @ x # q = p' @ x # q' \<Longrightarrow> p = p' \<and> q = q'"
proof (induction p arbitrary: p')
  case Nil
  then show ?case by (cases p') auto
next
  case (Cons y ys)
  then show ?case by (cases p') auto
qed

lemma joined_inj:
  assumes "alnum p" "alnum p'" "p @ ''_'' @ q = p' @ ''_'' @ q'"
  shows "p = p' \<and> q = q'"
proof -
  have "CHR ''_'' \<notin> set p" "CHR ''_'' \<notin> set p'"
    using assms(1,2) by (auto simp: alnum_def list_all_iff)
  then show ?thesis using assms(3) split_at_separator [of "CHR ''_''" p p' q q'] by simp
qed

lemma getDialogPath_sorted:
  assumes "alnum a" "alnum b" "length a + length b < 200"
  shows "getDialogPath dir a b =
         dir @ ''/'' @ (sort2 a b ! 0) @ ''_'' @ (sort2 a b ! 1) @ ''.json''"
  using sort2_cases [of a b] joined_id [of a b] joined_id [of b a] assms
  by (auto simp: getDialogPath_def dialogFile_def Let_def)

text \<open>
  C2, as the code has it. Two pairs of identities made of letters and digits only, each pair
  at most 200 characters long once joined by the separator, get the same storage key exactly
  when they are the same pair after sorting.
\<close>

theorem getDialogPath_inj_alnum:
  assumes "alnum a" "alnum b" "alnum c" "alnum d"
      and "length a + length b < 200" "length c + length d < 200"
  shows "getDialogPath dir a b = getDialogPath dir c d \<longleftrightarrow> sort2 a b = sort2 c d"
proof
  assume eq: "getDialogPath dir a b = getDialogPath dir c d"
  obtain p q where pq: "sort2 a b = [p, q]" "alnum p" "alnum q"
    using sort2_cases [of a b] assms(1,2) by auto
  obtain p' q' where pq': "sort2 c d = [p', q']" "alnum p'" "alnum q'"
    using sort2_cases [of c d] assms(3,4) by auto
  have "p @ ''_'' @ q = p' @ ''_'' @ q'"
    using eq pq(1) pq'(1) assms
    by (simp add: getDialogPath_sorted)
  then have "p = p' \<and> q = q'" using pq(2) pq'(2) by (rule joined_inj [rotated 2])
  then show "sort2 a b = sort2 c d" using pq(1) pq'(1) by simp
next
  assume "sort2 a b = sort2 c d"
  then show "getDialogPath dir a b = getDialogPath dir c d"
    by (simp add: getDialogPath_def)
qed

theorem getDialogPath_inj_alnum_witness:
  "alnum ''Px1'' \<and> alnum ''Px2'' \<and>
   getDialogPath ''dialogs'' ''Px1'' ''Px2'' = getDialogPath ''dialogs'' ''Px2'' ''Px1'' \<and>
   getDialogPath ''dialogs'' ''Px1'' ''Px2'' \<noteq> getDialogPath ''dialogs'' ''Px1'' ''Px1''"
  using getDialogPath_inj_alnum [of "''Px1''" "''Px2''" "''Px2''" "''Px1''" "''dialogs''"]
        getDialogPath_inj_alnum [of "''Px1''" "''Px2''" "''Px1''" "''Px1''" "''dialogs''"]
  by (simp add: alnum_def safeChar_def sort2_def)

text \<open>
  C2 as stated fails: a replaced character, an underscore inside an identity, and the cut at
  200 characters each give two different sorted pairs the same key.
\<close>

theorem getDialogPath_collision:
  "sort2 ''a-b'' ''c'' \<noteq> sort2 ''a_b'' ''c'' \<and>
   getDialogPath ''dialogs'' ''a-b'' ''c'' = getDialogPath ''dialogs'' ''a_b'' ''c'' \<and>
   sort2 ''a'' ''b_c'' \<noteq> sort2 ''a_b'' ''c'' \<and>
   getDialogPath ''dialogs'' ''a'' ''b_c'' = getDialogPath ''dialogs'' ''a_b'' ''c'' \<and>
   sort2 (replicate 200 CHR ''a'') ''x'' \<noteq> sort2 (replicate 200 CHR ''a'') ''y'' \<and>
   getDialogPath ''dialogs'' (replicate 200 CHR ''a'') ''x'' =
     getDialogPath ''dialogs'' (replicate 200 CHR ''a'') ''y''"
  by code_simp

subsection \<open>Reading a dialog that is not stored\<close>

lemma savePath_sort2: "savePath dir (sort2 a b) = getDialogPath dir a b"
  using sort2_cases [of a b] by (auto simp: savePath_def getDialogPath_swap)

lemma newParticipants_path:
  "savePath dir (if a = b then [a, b] else sort2 a b) = getDialogPath dir a b"
  by (simp add: savePath_sort2) (simp add: savePath_def)

lemma getDialog_absent:
  assumes "map_of (dialogFiles s) (getDialogPath (dialogsPath s) a b) = None"
  shows "getDialog a b s =
         Inr (\<lparr>participants = (if a = b then [a, b] else sort2 a b), messages = [],
               createdAt = dateNow s (nowCalls s), updatedAt = dateNow s (nowCalls s + 2)\<rparr>,
              s\<lparr>nowCalls := nowCalls s + 3,
                dialogFiles :=
                  AList.update (getDialogPath (dialogsPath s) a b)
                    (Json \<lparr>participants = (if a = b then [a, b] else sort2 a b), messages = [],
                           createdAt = dateNow s (nowCalls s),
                           updatedAt = dateNow s (nowCalls s + 2)\<rparr>)
                    (dialogFiles s)\<rparr>)"
  using assms
  by (simp add: getDialog_def saveDialog_def now_def Let_def newParticipants_path)

lemma slice_Nil: "slice k [] = []"
  by (simp add: slice_def)

text \<open>
  C10. For a pair of addresses with no file under its key, \<^verbatim>\<open>getMessages\<close> returns the empty
  list and \<^verbatim>\<open>markAsRead\<close> returns normally, whatever the limit and the reader; both leave
  the same storage, in which the key holds a new dialog with no messages for that pair
  (participants sorted, both kept for a dialog with oneself), every other file is as before
  and the contacts are untouched.
\<close>

theorem reads_create_missing_dialog:
  assumes "map_of (dialogFiles s) (getDialogPath (dialogsPath s) a b) = None"
  shows "\<exists>s'. getMessages a b limitOpt s = Inr ([], s') \<and>
              markAsRead a b reader s = Inr s' \<and>
              map_of (dialogFiles s') (getDialogPath (dialogsPath s) a b) =
                Some (Json \<lparr>participants = (if a = b then [a, b] else sort2 a b),
                            messages = [], createdAt = dateNow s (nowCalls s),
                            updatedAt = dateNow s (nowCalls s + 2)\<rparr>) \<and>
              (\<forall>p. p \<noteq> getDialogPath (dialogsPath s) a b \<longrightarrow>
                   map_of (dialogFiles s') p = map_of (dialogFiles s) p) \<and>
              contactsFile s' = contactsFile s"
  by (simp add: getMessages_def markAsRead_def getDialog_absent [OF assms] slice_Nil
      update_conv')

theorem reads_create_missing_dialog_witness:
  "map_of (dialogFiles fresh) (getDialogPath (dialogsPath fresh) ''A'' ''B'') = None \<and>
   (\<exists>s'. getMessages ''B'' ''A'' None fresh = Inr ([], s') \<and>
         markAsRead ''B'' ''A'' ''B'' fresh = Inr s' \<and>
         map_of (dialogFiles s') ''dialogs/A_B.json'' =
           Some (Json \<lparr>participants = [''A'', ''B''], messages = [], createdAt = 5000,
                       updatedAt = 5002\<rparr>))"
proof -
  have h: "map_of (dialogFiles fresh) (getDialogPath (dialogsPath fresh) ''B'' ''A'') = None"
    by (simp add: fresh_def)
  have p: "getDialogPath (dialogsPath fresh) ''B'' ''A'' = ''dialogs/A_B.json''"
    by (simp add: fresh_def getDialogPath_def sort2_def dialogFile_def sanitize_def
        limitLength_def safeChar_def)
  have q: "sort2 ''B'' ''A'' = [''A'', ''B'']"
    by (simp add: sort2_def)
  have d: "dateNow fresh (nowCalls fresh) = 5000" "dateNow fresh (nowCalls fresh + 2) = 5002"
    by (simp_all add: fresh_def)
  from reads_create_missing_dialog [OF h, of None "''B''"]
  obtain s' where
    "getMessages ''B'' ''A'' None fresh = Inr ([], s')"
    "markAsRead ''B'' ''A'' ''B'' fresh = Inr s'"
    "map_of (dialogFiles s') ''dialogs/A_B.json'' =
       Some (Json \<lparr>participants = [''A'', ''B''], messages = [], createdAt = 5000,
                   updatedAt = 5002\<rparr>)"
    unfolding p q d by auto
  moreover have "map_of (dialogFiles fresh) (getDialogPath (dialogsPath fresh) ''A'' ''B'') = None"
    by (simp add: fresh_def)
  ultimately show ?thesis by blast
qed

subsection \<open>The dialog with oneself\<close>








lemma keyTaken_reached:
  "\<exists>m. addMessage ''a'' ''a_a_a'' ''hi'' (Some 1000) fresh = Inr (m, keyTaken)"
  by (simp add: addMessage_def getDialog_def saveDialog_def updateContacts_def touchContact_def
      now_def random_def fresh_def keyTaken_def Let_def split_def getDialogPath_def sort2_def
      dialogFile_def sanitize_def limitLength_def safeChar_def savePath_def)


subsection \<open>The contact directory under addMessage\<close>

lemma touchFirst_address: "map address (touchFirst a t cs) = map address cs"
  by (induction cs) auto

lemma touchFirst_addedAt: "map addedAt (touchFirst a t cs) = map addedAt cs"
  by (induction cs) auto

lemma touchFirst_length: "length (touchFirst a t cs) = length cs"
  by (induction cs) auto

lemma touchFirst_other:
  "c \<in> set (touchFirst a t cs) \<Longrightarrow> address c \<noteq> a \<Longrightarrow> c \<in> set cs"
  by (induction cs) (auto split: if_splits)

lemma touchFirst_other_keep:
  "c \<in> set cs \<Longrightarrow> address c \<noteq> a \<Longrightarrow> c \<in> set (touchFirst a t cs)"
  by (induction cs) (auto split: if_splits)

lemma touchFirst_hit:
  "distinct (map address cs) \<Longrightarrow> c \<in> set (touchFirst a t cs) \<Longrightarrow> address c = a \<Longrightarrow>
   lastMessageAt c = t"
proof (induction cs)
  case Nil
  then show ?case by simp
next
  case (Cons x xs)
  show ?case
  proof (cases "address x = a")
    case True
    then have "c = x\<lparr>lastMessageAt := t\<rparr> \<or> c \<in> set xs"
      using Cons.prems(2) by simp
    moreover have "c \<notin> set xs"
      using Cons.prems(1,3) True by auto
    ultimately show ?thesis by auto
  next
    case False
    then have "c = x \<or> c \<in> set (touchFirst a t xs)"
      using Cons.prems(2) by simp
    then have "c \<in> set (touchFirst a t xs)"
      using False Cons.prems(3) by auto
    then show ?thesis
      using Cons.IH Cons.prems(1,3) by simp
  qed
qed

lemma find_None_address: "find (\<lambda>c. address c = a) cs = None \<longleftrightarrow> a \<notin> address ` set cs"
  by (auto simp: find_None_iff)

text \<open>What one round of the loop does to the list, when the address is present.\<close>

lemma touchContact_present:
  assumes "a \<in> address ` set cs"
  shows "touchContact a (cs, s) =
         (touchFirst a (dateNow s (nowCalls s)) cs, s\<lparr>nowCalls := Suc (nowCalls s)\<rparr>)"
  using assms by (simp add: touchContact_def find_None_address now_def)

lemma touchContact_absent:
  assumes "a \<notin> address ` set cs"
  shows "touchContact a (cs, s) =
         (cs @ [\<lparr>address = a, addedAt = dateNow s (nowCalls s),
                  lastMessageAt = dateNow s (Suc (nowCalls s))\<rparr>],
          s\<lparr>nowCalls := Suc (Suc (nowCalls s))\<rparr>)"
  using assms by (simp add: touchContact_def find_None_address now_def)

lemma touchContact_distinct:
  "distinct (map address cs) \<Longrightarrow> distinct (map address (fst (touchContact a (cs, s))))"
  by (cases "a \<in> address ` set cs")
     (simp_all add: touchContact_present touchContact_absent touchFirst_address)

lemma touchContact_addresses:
  "address ` set (fst (touchContact a (cs, s))) = insert a (address ` set cs)"
proof (cases "a \<in> address ` set cs")
  case True
  have "set (map address (touchFirst a (dateNow s (nowCalls s)) cs)) = set (map address cs)"
    by (simp only: touchFirst_address)
  then show ?thesis using True by (auto simp: touchContact_present)
next
  case False
  then show ?thesis by (simp add: touchContact_absent)
qed

lemma updateContacts_unfold:
  "updateContacts a b s =
     (let st = touchContact b (touchContact a (getContacts s, s))
      in (snd st)\<lparr>contactsFile := Some (fst st)\<rparr>)"
  by (simp add: updateContacts_def getContacts_def Let_def split_def)

lemma getContacts_updateContacts:
  "getContacts (updateContacts a b s) = fst (touchContact b (touchContact a (getContacts s, s)))"
  by (simp add: updateContacts_unfold Let_def) (simp add: getContacts_def)

lemma touchContact_clock:
  "dateNow (snd (touchContact a (cs, s))) = dateNow s \<and>
   nowCalls s < nowCalls (snd (touchContact a (cs, s))) \<and>
   dialogFiles (snd (touchContact a (cs, s))) = dialogFiles s"
  by (cases "a \<in> address ` set cs") (simp_all add: touchContact_present touchContact_absent)

lemma updateContacts_distinct:
  assumes "distinct (map address (getContacts s))"
  shows "distinct (map address (getContacts (updateContacts a b s)))"
proof -
  obtain cs1 s1 where 1: "touchContact a (getContacts s, s) = (cs1, s1)" by (cases "touchContact a (getContacts s, s)")
  obtain cs2 s2 where 2: "touchContact b (cs1, s1) = (cs2, s2)" by (cases "touchContact b (cs1, s1)")
  have "distinct (map address cs1)" using touchContact_distinct [OF assms, of a s] 1 by simp
  then have "distinct (map address cs2)" using touchContact_distinct [of cs1 b s1] 2 by simp
  then show ?thesis by (simp add: getContacts_updateContacts 1 2)
qed

lemma updateContacts_addresses:
  "address ` set (getContacts (updateContacts a b s)) =
   insert a (insert b (address ` set (getContacts s)))"
proof -
  obtain cs1 s1 where 1: "touchContact a (getContacts s, s) = (cs1, s1)" by (cases "touchContact a (getContacts s, s)")
  obtain cs2 s2 where 2: "touchContact b (cs1, s1) = (cs2, s2)" by (cases "touchContact b (cs1, s1)")
  have "address ` set cs1 = insert a (address ` set (getContacts s))"
    using touchContact_addresses [of a "getContacts s" s] 1 by simp
  moreover have "address ` set cs2 = insert b (address ` set cs1)"
    using touchContact_addresses [of b cs1 s1] 2 by simp
  ultimately show ?thesis by (auto simp: getContacts_updateContacts 1 2)
qed

lemma updateContacts_present:
  assumes "a \<in> address ` set (getContacts s)" "b \<in> address ` set (getContacts s)"
  shows "getContacts (updateContacts a b s) =
           touchFirst b (dateNow s (Suc (nowCalls s)))
             (touchFirst a (dateNow s (nowCalls s)) (getContacts s))"
    and "nowCalls (updateContacts a b s) = nowCalls s + 2"
    and "dateNow (updateContacts a b s) = dateNow s"
proof -
  have b': "b \<in> address ` set (touchFirst a (dateNow s (nowCalls s)) (getContacts s))"
  proof -
    have "set (map address (touchFirst a (dateNow s (nowCalls s)) (getContacts s))) =
          set (map address (getContacts s))"
      by (simp only: touchFirst_address)
    then show ?thesis using assms(2) by simp
  qed
  show "getContacts (updateContacts a b s) =
           touchFirst b (dateNow s (Suc (nowCalls s)))
             (touchFirst a (dateNow s (nowCalls s)) (getContacts s))"
    "nowCalls (updateContacts a b s) = nowCalls s + 2"
    "dateNow (updateContacts a b s) = dateNow s"
    by (simp add: getContacts_updateContacts touchContact_present [OF assms(1)]
          touchContact_present [OF b'])
       (simp_all add: updateContacts_unfold touchContact_present [OF assms(1)]
          touchContact_present [OF b'])
qed

lemma updateContacts_touched:
  assumes "distinct (map address (getContacts s))"
      and "a \<in> address ` set (getContacts s)" "b \<in> address ` set (getContacts s)"
      and "c \<in> set (getContacts (updateContacts a b s))" "address c = a \<or> address c = b"
  shows "lastMessageAt c = dateNow s (nowCalls s) \<or> lastMessageAt c = dateNow s (Suc (nowCalls s))"
proof -
  let ?cs1 = "touchFirst a (dateNow s (nowCalls s)) (getContacts s)"
  have d1: "distinct (map address ?cs1)" using assms(1) by (simp add: touchFirst_address)
  have c: "c \<in> set (touchFirst b (dateNow s (Suc (nowCalls s))) ?cs1)"
    using assms(4) updateContacts_present(1) [OF assms(2,3)] by simp
  show ?thesis
  proof (cases "address c = b")
    case True
    then show ?thesis using touchFirst_hit [OF d1 c] by simp
  next
    case False
    then have "c \<in> set ?cs1" using c by (rule touchFirst_other [rotated])
    moreover have "address c = a" using False assms(5) by simp
    ultimately show ?thesis using touchFirst_hit [OF assms(1)] by simp
  qed
qed

lemma saveDialog_frame:
  "contactsFile (snd (saveDialog d s)) = contactsFile s \<and>
   dateNow (snd (saveDialog d s)) = dateNow s \<and>
   nowCalls (snd (saveDialog d s)) = Suc (nowCalls s)"
  by (simp add: saveDialog_def now_def Let_def)

lemma getDialog_frame:
  assumes "getDialog a b s = Inr (d, s')"
  shows "contactsFile s' = contactsFile s \<and> dateNow s' = dateNow s \<and> nowCalls s \<le> nowCalls s'"
  using assms
  by (auto simp: getDialog_def saveDialog_def now_def Let_def
      split: option.splits fileContent.splits)

lemma addMessage_contacts:
  assumes "addMessage f t x tsOpt s = Inr (m, s')"
  shows "\<exists>s3. s' = updateContacts f t s3 \<and> getContacts s3 = getContacts s \<and>
              dateNow s3 = dateNow s \<and> nowCalls s \<le> nowCalls s3"
proof -
  obtain ts s0 where 0: "(case tsOpt of None \<Rightarrow> now s | Some t \<Rightarrow> (t, s)) = (ts, s0)"
    by (cases "case tsOpt of None \<Rightarrow> now s | Some t \<Rightarrow> (t, s)")
  have f0: "contactsFile s0 = contactsFile s \<and> dateNow s0 = dateNow s \<and> nowCalls s \<le> nowCalls s0"
    using 0 by (auto simp: now_def split: option.splits)
  obtain d s1 where 1: "getDialog f t s0 = Inr (d, s1)"
    using assms 0 by (auto simp: addMessage_def split: sum.splits)
  note f1 = getDialog_frame [OF 1]
  let ?s2 = "snd (random s1)"
  let ?m = "\<lparr>msgId = (ts, fst (random s1)), msgFrom = f, msgTo = t, msgText = x,
             timestamp = ts, read = False\<rparr>"
  let ?s3 = "snd (saveDialog (d\<lparr>messages := messages d @ [?m]\<rparr>) ?s2)"
  have f2: "contactsFile ?s2 = contactsFile s1 \<and> dateNow ?s2 = dateNow s1 \<and> nowCalls ?s2 = nowCalls s1"
    by (simp add: random_def)
  have "s' = updateContacts f t ?s3"
    using assms 0 1 by (auto simp: addMessage_def Let_def split_def)
  moreover have "getContacts ?s3 = getContacts s \<and> dateNow ?s3 = dateNow s \<and> nowCalls s \<le> nowCalls ?s3"
    using f0 f1 f2 saveDialog_frame [of "d\<lparr>messages := messages d @ [?m]\<rparr>" ?s2]
    by (simp add: getContacts_def)
  ultimately show ?thesis by blast
qed

lemma updateContacts_files:
  "dialogFiles (updateContacts a b s) = dialogFiles s \<and>
   dialogsPath (updateContacts a b s) = dialogsPath s"
proof -
  have "dialogFiles (snd (touchContact c (cs, s'))) = dialogFiles s' \<and>
        dialogsPath (snd (touchContact c (cs, s'))) = dialogsPath s'" for c cs s'
    by (cases "c \<in> address ` set cs") (simp_all add: touchContact_present touchContact_absent)
  then show ?thesis
    by (simp add: updateContacts_unfold Let_def split_def)
       (metis prod.collapse)
qed

lemma saveDialog_keeps_json:
  assumes "map_of (dialogFiles s) k = Some (Json d0)"
  shows "\<exists>d1. map_of (dialogFiles (snd (saveDialog d s))) k = Some (Json d1)"
  using assms by (simp add: saveDialog_def now_def Let_def update_conv')

lemma getDialog_key_json:
  assumes "getDialog a b s = Inr (d, s')"
  shows "dialogsPath s' = dialogsPath s \<and>
         (\<exists>d1. map_of (dialogFiles s') (getDialogPath (dialogsPath s) a b) = Some (Json d1))"
  using assms
  by (auto simp: getDialog_def saveDialog_def now_def Let_def newParticipants_path update_conv'
      split: option.splits fileContent.splits)

lemma addMessage_key_json:
  assumes "addMessage f t x tsOpt s = Inr (m, s')"
  shows "dialogsPath s' = dialogsPath s \<and>
         (\<exists>d1. map_of (dialogFiles s') (getDialogPath (dialogsPath s) f t) = Some (Json d1))"
proof -
  obtain ts s0 where 0: "(case tsOpt of None \<Rightarrow> now s | Some t \<Rightarrow> (t, s)) = (ts, s0)"
    by (cases "case tsOpt of None \<Rightarrow> now s | Some t \<Rightarrow> (t, s)")
  have f0: "dialogsPath s0 = dialogsPath s"
    using 0 by (auto simp: now_def split: option.splits)
  obtain d s1 where 1: "getDialog f t s0 = Inr (d, s1)"
    using assms 0 by (auto simp: addMessage_def split: sum.splits)
  from getDialog_key_json [OF 1] f0 obtain d1 where
    k1: "dialogsPath s1 = dialogsPath s"
        "map_of (dialogFiles s1) (getDialogPath (dialogsPath s) f t) = Some (Json d1)"
    by auto
  let ?s2 = "snd (random s1)"
  let ?m = "\<lparr>msgId = (ts, fst (random s1)), msgFrom = f, msgTo = t, msgText = x,
             timestamp = ts, read = False\<rparr>"
  let ?s3 = "snd (saveDialog (d\<lparr>messages := messages d @ [?m]\<rparr>) ?s2)"
  have k2: "map_of (dialogFiles ?s2) (getDialogPath (dialogsPath s) f t) = Some (Json d1)"
    using k1(2) by (simp add: random_def)
  have s': "s' = updateContacts f t ?s3"
    using assms 0 1 by (auto simp: addMessage_def Let_def split_def)
  have "dialogsPath ?s3 = dialogsPath s"
    using k1(1) by (simp add: saveDialog_def now_def Let_def random_def)
  moreover have "\<exists>d2. map_of (dialogFiles ?s3) (getDialogPath (dialogsPath s) f t) = Some (Json d2)"
    using k2 by (rule saveDialog_keeps_json)
  ultimately show ?thesis by (simp add: s' updateContacts_files)
qed

lemma addMessage_succeeds:
  assumes "map_of (dialogFiles s) (getDialogPath (dialogsPath s) f t) = Some (Json d)"
  shows "\<exists>m s'. addMessage f t x tsOpt s = Inr (m, s')"
proof -
  obtain ts s0 where 0: "(case tsOpt of None \<Rightarrow> now s | Some t \<Rightarrow> (t, s)) = (ts, s0)"
    by (cases "case tsOpt of None \<Rightarrow> now s | Some t \<Rightarrow> (t, s)")
  have "dialogsPath s0 = dialogsPath s \<and> dialogFiles s0 = dialogFiles s"
    using 0 by (auto simp: now_def split: option.splits)
  then have "getDialog f t s0 = Inr (d, s0)"
    using assms by (simp add: getDialog_def)
  then show ?thesis using 0 by (simp add: addMessage_def Let_def split_def)
qed

text \<open>
  C7. On a storage whose contact directory has at most one entry per address, after a call
  \<^verbatim>\<open>addMessage(from, to, ...)\<close> that returns, a second call for the same pair returns too,
  and the directory has at most one entry per address after each call; the second call
  appends nothing (the addresses, in order, and every \<^verbatim>\<open>addedAt\<close> are as after the first
  call) and sets \<^verbatim>\<open>lastMessageAt\<close> of the entries of \<open>from\<close> and \<open>to\<close> to a clock reading
  taken during that second call.
\<close>

theorem addMessage_twice_contacts:
  assumes "distinct (map address (getContacts s))"
      and "addMessage f t x tsOpt s = Inr (m1, s1)"
  shows "\<exists>m2 s2. addMessage f t x' tsOpt' s1 = Inr (m2, s2) \<and>
           distinct (map address (getContacts s1)) \<and>
           distinct (map address (getContacts s2)) \<and>
           map address (getContacts s2) = map address (getContacts s1) \<and>
           map addedAt (getContacts s2) = map addedAt (getContacts s1) \<and>
           (\<forall>c \<in> set (getContacts s2). address c = f \<or> address c = t \<longrightarrow>
              (\<exists>k. nowCalls s1 \<le> k \<and> k < nowCalls s2 \<and> lastMessageAt c = dateNow s1 k))"
proof -
  from addMessage_contacts [OF assms(2)] obtain s3 where
    s3: "s1 = updateContacts f t s3" "getContacts s3 = getContacts s" by blast
  have d1: "distinct (map address (getContacts s1))"
    using assms(1) s3 by (simp add: updateContacts_distinct)
  have in1: "f \<in> address ` set (getContacts s1)" "t \<in> address ` set (getContacts s1)"
    by (simp_all add: s3(1) updateContacts_addresses)
  from addMessage_key_json [OF assms(2)] obtain dj where
    "map_of (dialogFiles s1) (getDialogPath (dialogsPath s1) f t) = Some (Json dj)" by auto
  from addMessage_succeeds [OF this] obtain m2 s2 where
    2: "addMessage f t x' tsOpt' s1 = Inr (m2, s2)" by blast
  from addMessage_contacts [OF 2] obtain s4 where
    s4: "s2 = updateContacts f t s4" "getContacts s4 = getContacts s1"
        "dateNow s4 = dateNow s1" "nowCalls s1 \<le> nowCalls s4" by blast
  have d4: "distinct (map address (getContacts s4))" using d1 s4(2) by simp
  have in4: "f \<in> address ` set (getContacts s4)" "t \<in> address ` set (getContacts s4)"
    using in1 s4(2) by simp_all
  note p = updateContacts_present [OF in4]
  have d2: "distinct (map address (getContacts s2))"
    using d4 by (simp add: s4(1) updateContacts_distinct)
  have a2: "map address (getContacts s2) = map address (getContacts s1)"
    by (simp add: s4(1) p(1) touchFirst_address s4(2))
  have b2: "map addedAt (getContacts s2) = map addedAt (getContacts s1)"
    by (simp add: s4(1) p(1) touchFirst_addedAt s4(2))
  have l2: "\<exists>k. nowCalls s1 \<le> k \<and> k < nowCalls s2 \<and> lastMessageAt c = dateNow s1 k"
    if c: "c \<in> set (getContacts s2)" "address c = f \<or> address c = t" for c
  proof -
    have "lastMessageAt c = dateNow s4 (nowCalls s4) \<or>
          lastMessageAt c = dateNow s4 (Suc (nowCalls s4))"
      using updateContacts_touched [OF d4 in4, of c] c by (simp add: s4(1))
    moreover have "nowCalls s2 = nowCalls s4 + 2" by (simp add: s4(1) p(2))
    ultimately show ?thesis
      using s4(3,4)
      by (metis add_2_eq_Suc' le_SucI lessI less_SucI)
  qed
  show ?thesis using 2 d1 d2 a2 b2 l2 by blast
qed

theorem addMessage_twice_contacts_witness:
  "distinct (map address (getContacts fresh)) \<and>
   (\<exists>m1 s1 m2 s2. addMessage ''A'' ''B'' ''hi'' (Some 1000) fresh = Inr (m1, s1) \<and>
      addMessage ''A'' ''B'' ''again'' (Some 2000) s1 = Inr (m2, s2) \<and>
      map address (getContacts s1) = [''A'', ''B''] \<and>
      map address (getContacts s2) = [''A'', ''B''])"
proof -
  have d: "distinct (map address (getContacts fresh))"
    by (simp add: getContacts_def fresh_def)
  have "\<exists>m1 s1. addMessage ''A'' ''B'' ''hi'' (Some 1000) fresh = Inr (m1, s1) \<and>
          map address (getContacts s1) = [''A'', ''B'']"
    by (simp add: addMessage_def getDialog_def saveDialog_def updateContacts_def
        touchContact_def now_def random_def fresh_def Let_def split_def getContacts_def)
  then obtain m1 s1 where 1: "addMessage ''A'' ''B'' ''hi'' (Some 1000) fresh = Inr (m1, s1)"
    "map address (getContacts s1) = [''A'', ''B'']" by (elim exE conjE)
  from addMessage_twice_contacts [OF d 1(1), of "''again''" "Some 2000"] 1
  show ?thesis using d by auto
qed

subsection \<open>Messages stored out of timestamp order\<close>

lemma outOfOrder_reached:
  "\<exists>m1 s1. addMessage ''A'' ''B'' ''sent'' (Some 2000) fresh = Inr (m1, s1) \<and>
     (\<exists>m2. addMessage ''B'' ''A'' ''received'' (Some 1000) s1 = Inr (m2, outOfOrder))"
  by (simp add: addMessage_def getDialog_def saveDialog_def updateContacts_def touchContact_def
      now_def random_def fresh_def outOfOrder_def Let_def split_def getDialogPath_def sort2_def dialogFile_def
      sanitize_def limitLength_def safeChar_def savePath_def)

text \<open>
  C3, evaluated on the code. With the dialog of \<open>A\<close> and \<open>B\<close> holding the timestamps 2000 and
  1000 in that order, \<^verbatim>\<open>getDialogs('A')\<close> reports the message appended last, of timestamp
  1000, as \<^verbatim>\<open>lastMessage\<close>, not the message of the greatest timestamp.
\<close>

theorem getDialogs_last_appended:
  "map (map timestamp \<circ> messages) (getDialogs ''A'' outOfOrder) = [[2000, 1000]] \<and>
   map (map_option timestamp \<circ> lastMessage) (getDialogs ''A'' outOfOrder) = [Some 1000]"
  by (simp add: getDialogs_def readdir_def dialogEntryOf_def outOfOrder_def fresh_def
      endsWith_def Let_def uniqueList_def dialog.defs)

text \<open>
  C8, evaluated on the code. With the limit 0, \<^verbatim>\<open>getMessages\<close> returns both messages of the
  dialog (sorted), not the most recent zero of them: \<^verbatim>\<open>slice(-0)\<close> is \<^verbatim>\<open>slice(0)\<close>.
\<close>

theorem getMessages_limit_zero:
  "map_sum id (map timestamp \<circ> fst) (getMessages ''A'' ''B'' (Some 0) outOfOrder) =
     Inr [1000, 2000]"
  by (simp add: getMessages_def getDialog_def outOfOrder_def fresh_def Let_def slice_def
      getDialogPath_def sort2_def dialogFile_def sanitize_def limitLength_def safeChar_def)

section \<open>Properties of the server client\<close>

subsection \<open>A frame is dispatched twice\<close>

text \<open>
  C1, evaluated on the code. On the connected client with the handler of \<^verbatim>\<open>index.js\<close>
  subscribed to \<^verbatim>\<open>'message'\<close>, one inbound \<^verbatim>\<open>message\<close> frame calls that handler twice with
  the payload: once in the block for \<^verbatim>\<open>'message'\<close> and once more in the block for other
  event types.
\<close>

theorem message_frame_dispatched_twice:
  "bucket ''message'' openClient = [StoreMessage] \<and>
   map_sum id calls (handleWebSocketMessage chatFrame openClient) =
     Inr [(StoreMessage, chatData), (StoreMessage, chatData)]"
  by code_simp

subsection \<open>Connection attempts\<close>











subsection \<open>Consistency of requests and subscriptions\<close>





































text \<open>The connection methods and socket events leave the requests and subscriptions alone.\<close>

lemma correlator_closeSocket: "correlator (closeSocket j c) = correlator c"
  by (simp add: correlator_def closeSocket_def)




















subsection \<open>A promise is settled once\<close>








subsection \<open>A released request stays as it is\<close>













subsection \<open>Deadlines\<close>







end
